theory Spec2Isabelle
  imports Main "HOL-Library.Sublist"
begin

section \<open>Schema management of cqlengine (\<^verbatim>\<open>cqlengine/management.py\<close>)\<close>

text \<open>
  The module synchronises declared models with a Cassandra cluster: it reads the system
  catalog through a connection and issues CREATE/DROP statements as text. The connection
  helpers (\<^verbatim>\<open>connection_manager\<close>, \<^verbatim>\<open>execute\<close>), the model class and the
  column classes live outside this module; they enter the embedding as parameters.
\<close>

subsection \<open>String helpers of Python\<close>

text \<open>\<^verbatim>\<open>sep.join(xs)\<close>\<close>

fun join :: "string \<Rightarrow> string list \<Rightarrow> string" where
  "join sep [] = []"
| "join sep [x] = x"
| "join sep (x # y # ys) = x @ sep @ join sep (y # ys)"

text \<open>\<^verbatim>\<open>s.replace(a, b)\<close> for single characters \<open>a\<close> and \<open>b\<close>.\<close>

definition replace :: "char \<Rightarrow> char \<Rightarrow> string \<Rightarrow> string" where
  "replace a b s = map (\<lambda>c. if c = a then b else c) s"

text \<open>\<^verbatim>\<open>sub in s\<close> on strings: \<open>sub\<close> occurs in \<open>s\<close> as a contiguous run.\<close>

fun str_contains :: "string \<Rightarrow> string \<Rightarrow> bool" where
  "str_contains [] sub = (sub = [])"
| "str_contains (c # cs) sub = (prefix sub (c # cs) \<or> str_contains cs sub)"

subsection \<open>Exceptions, the cluster connection and the trace of issued statements\<close>

text \<open>
  \<^verbatim>\<open>CQLEngineException\<close> is the exception class of the package (the schema error of
  the specification); any other exception class a call may raise is \<open>OtherException\<close>.
  Both carry the message that \<^verbatim>\<open>unicode(ex)\<close> returns.
\<close>

datatype exn = CQLEngineException string | OtherException string

text \<open>The values \<^verbatim>\<open>json.dumps\<close> meets in a replication map: a string or an integer.\<close>

datatype jvalue = JString string | JNumber int

text \<open>
  The parameters of the embedding, over a cluster state \<open>'c\<close>:
  \<^item> \<open>json_dumps\<close> is \<^verbatim>\<open>json.dumps\<close> of the standard library on a dictionary;
  \<^item> \<open>con_execute c stmt params\<close> is \<^verbatim>\<open>con.execute(stmt, params, row_factory=...)\<close>,
    a catalog read: it raises, or returns the rows; every read of the module selects one
    column, so a row is the value of that column;
  \<^item> \<open>execute c stmt\<close> is the module-level \<^verbatim>\<open>execute(stmt)\<close>: it raises or not, and
    leaves the cluster in a new state.
\<close>

record 'c backend =
  json_dumps :: "(string \<rightharpoonup> jvalue) \<Rightarrow> string"
  con_execute :: "'c \<Rightarrow> string \<Rightarrow> string list \<Rightarrow> exn + string list"
  execute :: "'c \<Rightarrow> string \<Rightarrow> exn option \<times> 'c"

text \<open>What the module sends over the connection, in the order it is sent.\<close>

datatype event = Read string "string list" | DDL string

record 'c world =
  cluster :: 'c
  issued :: "event list"

definition run_read ::
  "'c backend \<Rightarrow> string \<Rightarrow> string list \<Rightarrow> 'c world \<Rightarrow> (exn + string list) \<times> 'c world" where
  "run_read d stmt params w =
     (con_execute d (cluster w) stmt params, w\<lparr>issued := issued w @ [Read stmt params]\<rparr>)"

definition run_execute :: "'c backend \<Rightarrow> string \<Rightarrow> 'c world \<Rightarrow> exn option \<times> 'c world" where
  "run_execute d stmt w =
     (case execute d (cluster w) stmt of
        (r, c') \<Rightarrow> (r, \<lparr>cluster = c', issued = issued w @ [DDL stmt]\<rparr>))"

subsection \<open>Keyspaces\<close>

definition keyspaces_query :: string where
  "keyspaces_query = ''SELECT keyspace_name FROM system.schema_keyspaces''"

text \<open>
  Lines 23 to 27: the dictionary literal, then \<^verbatim>\<open>replication_map.update(replication_values)\<close>;
  the keyword arguments win on a key both have. A key \<^verbatim>\<open>class\<close> can reach
  \<^verbatim>\<open>replication_values\<close> through \<^verbatim>\<open>**\<close> unpacking; a keyword
  \<^verbatim>\<open>replication_factor\<close> binds the parameter of that name instead.
\<close>

definition replication_map :: "string \<Rightarrow> int \<Rightarrow> (string \<rightharpoonup> jvalue) \<Rightarrow> (string \<rightharpoonup> jvalue)" where
  "replication_map strategy_class replication_factor replication_values =
     [''class'' \<mapsto> JString strategy_class,
      ''replication_factor'' \<mapsto> JNumber replication_factor] ++ replication_values"

text \<open>Lines 29 to 35: the statement text, with the line breaks and indentation of the literal.\<close>

definition create_keyspace_query ::
  "'c backend \<Rightarrow> string \<Rightarrow> string \<Rightarrow> int \<Rightarrow> bool \<Rightarrow> (string \<rightharpoonup> jvalue) \<Rightarrow> string" where
  "create_keyspace_query d name strategy_class replication_factor durable_writes replication_values =
     (let query =
            ''\<newline>            CREATE KEYSPACE '' @ name @
            ''\<newline>            WITH REPLICATION = '' @
            replace (CHR 0x22) (CHR 0x27)
              (json_dumps d (replication_map strategy_class replication_factor replication_values)) @
            ''\<newline>            ''
      in if strategy_class \<noteq> ''SimpleStrategy''
         then query @ '' AND DURABLE_WRITES = '' @ (if durable_writes then ''true'' else ''false'')
         else query)"

definition create_keyspace ::
  "'c backend \<Rightarrow> string \<Rightarrow> string \<Rightarrow> int \<Rightarrow> bool \<Rightarrow> (string \<rightharpoonup> jvalue) \<Rightarrow> 'c world
     \<Rightarrow> (exn + unit) \<times> 'c world" where
  "create_keyspace d name strategy_class replication_factor durable_writes replication_values w =
     (case run_read d keyspaces_query [] w of
        (Inl ex, w1) \<Rightarrow> (Inl ex, w1)
      | (Inr keyspaces, w1) \<Rightarrow>
          if name \<notin> set keyspaces
          then (case run_execute d
                       (create_keyspace_query d name strategy_class replication_factor
                          durable_writes replication_values) w1 of
                  (Some ex, w2) \<Rightarrow> (Inl ex, w2)
                | (None, w2) \<Rightarrow> (Inr (), w2))
          else (Inr (), w1))"

definition delete_keyspace :: "'c backend \<Rightarrow> string \<Rightarrow> 'c world \<Rightarrow> (exn + unit) \<times> 'c world" where
  "delete_keyspace d name w =
     (case run_read d keyspaces_query [] w of
        (Inl ex, w1) \<Rightarrow> (Inl ex, w1)
      | (Inr keyspaces, w1) \<Rightarrow>
          if name \<in> set keyspaces
          then (case run_execute d (''DROP KEYSPACE '' @ name) w1 of
                  (Some ex, w2) \<Rightarrow> (Inl ex, w2)
                | (None, w2) \<Rightarrow> (Inr (), w2))
          else (Inr (), w1))"

subsection \<open>Models and columns\<close>

text \<open>
  What \<^verbatim>\<open>create_table\<close> and \<^verbatim>\<open>delete_table\<close> read of a column object:
  \<^verbatim>\<open>db_field_name\<close>, the result of \<^verbatim>\<open>get_column_def()\<close>, the flags
  \<^verbatim>\<open>primary_key\<close>, \<^verbatim>\<open>partition_key\<close> and \<^verbatim>\<open>index\<close>, and
  \<^verbatim>\<open>clustering_order\<close> (\<open>None\<close> when not declared).
\<close>

record column =
  db_field_name :: string
  get_column_def :: string
  primary_key :: bool
  partition_key :: bool
  index :: bool
  clustering_order :: "string option"

text \<open>
  What they read of a model class: \<^verbatim>\<open>__abstract__\<close>,
  \<^verbatim>\<open>column_family_name(include_keyspace)\<close>, \<^verbatim>\<open>_get_keyspace()\<close>, the ordered
  dictionaries \<^verbatim>\<open>_columns\<close> and \<^verbatim>\<open>_clustering_keys\<close> (as their items, in
  declaration order) and \<^verbatim>\<open>__read_repair_chance__\<close> (as the text that
  \<^verbatim>\<open>format\<close> renders for it).
\<close>

record model =
  abstract :: bool
  column_family_name :: "bool \<Rightarrow> string"
  get_keyspace :: string
  columns :: "(string \<times> column) list"
  clustering_keys :: "(string \<times> column) list"
  read_repair_chance :: string

subsection \<open>Creating a table\<close>

definition tables_query :: string where
  "tables_query =
     ''SELECT columnfamily_name from system.schema_columnfamilies WHERE keyspace_name = %s''"

definition index_query :: string where
  "index_query =
     ''SELECT index_name from system.'' @ [CHR 0x22] @ ''IndexInfo'' @ [CHR 0x22] @
     '' WHERE table_name=%s''"

text \<open>\<^verbatim>\<open>'"{}"'.format(s)\<close>\<close>

definition quoted :: "string \<Rightarrow> string" where
  "quoted s = [CHR 0x22] @ s @ [CHR 0x22]"

text \<open>
  Lines 78 to 83: \<^verbatim>\<open>add_column\<close> appends to the lists \<^verbatim>\<open>pkeys\<close>, \<^verbatim>\<open>ckeys\<close>
  and \<^verbatim>\<open>qtypes\<close> of the enclosing function; here they are passed and returned.
\<close>

definition add_column ::
  "column \<Rightarrow> string list \<times> string list \<times> string list
     \<Rightarrow> string list \<times> string list \<times> string list" where
  "add_column col acc =
     (case acc of (pkeys, ckeys, qtypes) \<Rightarrow>
        (let s = get_column_def col
         in if primary_key col
            then (if partition_key col
                  then (pkeys @ [quoted (db_field_name col)], ckeys, qtypes @ [s])
                  else (pkeys, ckeys @ [quoted (db_field_name col)], qtypes @ [s]))
            else (pkeys, ckeys, qtypes @ [s])))"

text \<open>\<^verbatim>\<open>c.clustering_order or 'ASC'\<close>: \<open>None\<close> and the empty string are both false.\<close>

definition order_or_asc :: "string option \<Rightarrow> string" where
  "order_or_asc ord = (case ord of None \<Rightarrow> ''ASC'' | Some s \<Rightarrow> if s = [] then ''ASC'' else s)"

text \<open>Lines 75 to 89: the column definitions and the PRIMARY KEY clause, in parentheses.\<close>

definition column_clauses :: "model \<Rightarrow> string" where
  "column_clauses m =
     (case fold (\<lambda>(name, col). add_column col) (columns m) ([], [], []) of
        (pkeys, ckeys, qtypes) \<Rightarrow>
          (let qtypes = qtypes @
                 [''PRIMARY KEY (('' @ join '', '' pkeys @ '')'' @
                  (if ckeys \<noteq> [] then '', '' @ join '', '' ckeys else []) @ '')'']
           in ''('' @ join '', '' qtypes @ '')''))"

text \<open>Lines 91 to 98: the WITH clause.\<close>

definition with_clause :: "model \<Rightarrow> string" where
  "with_clause m =
     (let with_qs = [''read_repair_chance = '' @ read_repair_chance m];
          order = map (\<lambda>c. db_field_name c @ '' '' @ order_or_asc (clustering_order c))
                    (map snd (clustering_keys m));
          with_qs = (if order \<noteq> []
                     then with_qs @ [''clustering order by ('' @ join '', '' order @ '')'']
                     else with_qs)
      in ''WITH '' @ join '' AND '' with_qs)"

text \<open>Lines 72 to 99: the three parts of the CREATE TABLE statement, joined by spaces.\<close>

definition create_table_query :: "model \<Rightarrow> string" where
  "create_table_query m =
     join '' '' [''CREATE TABLE '' @ column_family_name m True, column_clauses m, with_clause m]"

text \<open>
  Lines 101 to 107: the statement is executed; a \<^verbatim>\<open>CQLEngineException\<close> is dropped when
  its message says that the column family exists, and raised again otherwise. The
  \<^verbatim>\<open>except\<close> clause names that class only, so any other exception passes through.
\<close>

definition execute_create_table ::
  "'c backend \<Rightarrow> string \<Rightarrow> 'c world \<Rightarrow> (exn + unit) \<times> 'c world" where
  "execute_create_table d qs w =
     (case run_execute d qs w of
        (None, w') \<Rightarrow> (Inr (), w')
      | (Some ex, w') \<Rightarrow>
          (case ex of
             CQLEngineException msg \<Rightarrow>
               if \<not> str_contains msg ''Cannot add already existing column family''
               then (Inl ex, w')
               else (Inr (), w')
           | OtherException msg \<Rightarrow> (Inl ex, w')))"

text \<open>Lines 122 to 128: the name of a column's index and the statement that creates it.\<close>

definition idx_name :: "string \<Rightarrow> column \<Rightarrow> string" where
  "idx_name raw_cf_name col = ''index_'' @ raw_cf_name @ ''_'' @ db_field_name col"

definition create_index_query :: "string \<Rightarrow> string \<Rightarrow> column \<Rightarrow> string" where
  "create_index_query cf_name raw_cf_name col =
     join '' '' [''CREATE INDEX '' @ idx_name raw_cf_name col,
                 ''ON '' @ cf_name,
                 ''('' @ quoted (db_field_name col) @ '')'']"

text \<open>Lines 121 to 130: the loop over the indexed columns; an exception ends it.\<close>

fun create_indexes ::
  "'c backend \<Rightarrow> string \<Rightarrow> string \<Rightarrow> string list \<Rightarrow> column list \<Rightarrow> 'c world
     \<Rightarrow> (exn + unit) \<times> 'c world" where
  "create_indexes d cf_name raw_cf_name idx_names [] w = (Inr (), w)"
| "create_indexes d cf_name raw_cf_name idx_names (col # indexes) w =
     (if raw_cf_name @ ''.'' @ idx_name raw_cf_name col \<in> set idx_names
      then create_indexes d cf_name raw_cf_name idx_names indexes w
      else (case run_execute d (create_index_query cf_name raw_cf_name col) w of
              (Some ex, w') \<Rightarrow> (Inl ex, w')
            | (None, w') \<Rightarrow> create_indexes d cf_name raw_cf_name idx_names indexes w'))"

text \<open>Lines 109 to 130: the index names are read once, then the loop runs.\<close>

definition index_pass :: "'c backend \<Rightarrow> model \<Rightarrow> 'c world \<Rightarrow> (exn + unit) \<times> 'c world" where
  "index_pass d m w =
     (case run_read d index_query [get_keyspace m] w of
        (Inl ex, w1) \<Rightarrow> (Inl ex, w1)
      | (Inr idx_names, w1) \<Rightarrow>
          create_indexes d (column_family_name m True) (column_family_name m False) idx_names
            (filter index (map snd (columns m))) w1)"

text \<open>
  Lines 56 to 59: the keyspace is created by \<^verbatim>\<open>create_keyspace(ks_name)\<close>, so with
  the defaults of that function's signature.
\<close>

definition keyspace_pass ::
  "'c backend \<Rightarrow> model \<Rightarrow> bool \<Rightarrow> 'c world \<Rightarrow> (exn + unit) \<times> 'c world" where
  "keyspace_pass d m create_missing_keyspace w =
     (let ks_name = get_keyspace m
      in if create_missing_keyspace
         then create_keyspace d ks_name ''SimpleStrategy'' 3 True Map.empty w
         else (Inr (), w))"

text \<open>Lines 61 to 107: the table names are read, and the table is created when absent.\<close>

definition table_pass :: "'c backend \<Rightarrow> model \<Rightarrow> 'c world \<Rightarrow> (exn + unit) \<times> 'c world" where
  "table_pass d m w =
     (let raw_cf_name = column_family_name m False;
          ks_name = get_keyspace m
      in case run_read d tables_query [ks_name] w of
           (Inl ex, w1) \<Rightarrow> (Inl ex, w1)
         | (Inr tables, w1) \<Rightarrow>
             if raw_cf_name \<notin> set tables
             then execute_create_table d (create_table_query m) w1
             else (Inr (), w1))"

text \<open>\<^verbatim>\<open>create_table(model, create_missing_keyspace=True)\<close>\<close>

definition create_table ::
  "'c backend \<Rightarrow> model \<Rightarrow> bool \<Rightarrow> 'c world \<Rightarrow> (exn + unit) \<times> 'c world" where
  "create_table d m create_missing_keyspace w =
     (if abstract m
      then (Inl (CQLEngineException ''cannot create table from abstract model''), w)
      else
        (case keyspace_pass d m create_missing_keyspace w of
           (Inl ex, w1) \<Rightarrow> (Inl ex, w1)
         | (Inr u, w1) \<Rightarrow>
             (case table_pass d m w1 of
                (Inl ex, w2) \<Rightarrow> (Inl ex, w2)
              | (Inr u, w2) \<Rightarrow> index_pass d m w2)))"

subsection \<open>Dropping a table\<close>

definition delete_table :: "'c backend \<Rightarrow> model \<Rightarrow> 'c world \<Rightarrow> (exn + unit) \<times> 'c world" where
  "delete_table d m w =
     (let ks_name = get_keyspace m
      in case run_read d tables_query [ks_name] w of
           (Inl ex, w1) \<Rightarrow> (Inl ex, w1)
         | (Inr tables, w1) \<Rightarrow>
             if column_family_name m False \<notin> set tables
             then (Inr (), w1)
             else (case run_execute d (''drop table '' @ column_family_name m True @ '';'') w1 of
                     (Some ex, w2) \<Rightarrow> (Inl ex, w2)
                   | (None, w2) \<Rightarrow> (Inr (), w2)))"

subsection \<open>The specification's wording of the emitted clauses\<close>

text \<open>
  The partition-key columns and the clustering-key columns of a model, in declaration
  order, and the PRIMARY KEY clause built from them: the partition keys as a tuple in
  parentheses, then the clustering keys; every name is written in double quotes.
\<close>

definition partition_key_columns :: "model \<Rightarrow> column list" where
  "partition_key_columns m = filter (\<lambda>c. primary_key c \<and> partition_key c) (map snd (columns m))"

definition clustering_key_columns :: "model \<Rightarrow> column list" where
  "clustering_key_columns m =
     filter (\<lambda>c. primary_key c \<and> \<not> partition_key c) (map snd (columns m))"

definition spec_primary_key :: "model \<Rightarrow> string" where
  "spec_primary_key m =
     ''PRIMARY KEY (('' @
     join '', '' (map (\<lambda>c. quoted (db_field_name c)) (partition_key_columns m)) @ '')'' @
     concat (map (\<lambda>c. '', '' @ quoted (db_field_name c)) (clustering_key_columns m)) @ '')''"

text \<open>
  The indexed columns whose qualified index name \<open>table.index_table_column\<close> is not among
  the index names read from the cluster, and the CREATE INDEX statement of a column.
\<close>

definition missing_indexes :: "model \<Rightarrow> string list \<Rightarrow> column list" where
  "missing_indexes m idx_names =
     filter (\<lambda>c. column_family_name m False @ ''.index_'' @ column_family_name m False @ ''_'' @
                 db_field_name c \<notin> set idx_names)
       (filter index (map snd (columns m)))"

definition spec_create_index :: "model \<Rightarrow> column \<Rightarrow> string" where
  "spec_create_index m c =
     ''CREATE INDEX index_'' @ column_family_name m False @ ''_'' @ db_field_name c @
     '' ON '' @ column_family_name m True @ '' ('' @ quoted (db_field_name c) @ '')''"

subsection \<open>A scripted cluster for the examples\<close>

text \<open>
  A cluster whose catalog is three lists and whose reaction to each statement is looked
  up in a script; a statement outside the script is refused with a
  \<^verbatim>\<open>CQLEngineException\<close>.
\<close>

record catalog =
  keyspace_names :: "string list"
  table_names :: "(string \<times> string) list"
  index_names :: "(string \<times> string) list"

datatype effect =
  Raises exn | AddKeyspace string | AddTable string string | AddIndex string string

fun apply_effect :: "effect \<Rightarrow> catalog \<Rightarrow> exn option \<times> catalog" where
  "apply_effect (Raises ex) c = (Some ex, c)"
| "apply_effect (AddKeyspace k) c = (None, c\<lparr>keyspace_names := keyspace_names c @ [k]\<rparr>)"
| "apply_effect (AddTable k t) c = (None, c\<lparr>table_names := table_names c @ [(k, t)]\<rparr>)"
| "apply_effect (AddIndex k i) c = (None, c\<lparr>index_names := index_names c @ [(k, i)]\<rparr>)"

definition scripted ::
  "((string \<rightharpoonup> jvalue) \<Rightarrow> string) \<Rightarrow> (string \<times> effect) list \<Rightarrow> catalog backend" where
  "scripted dumps script =
     \<lparr>json_dumps = dumps,
      con_execute = (\<lambda>c stmt params.
        if stmt = keyspaces_query then Inr (keyspace_names c)
        else if stmt = tables_query
          then Inr (map snd (filter (\<lambda>kt. [fst kt] = params) (table_names c)))
        else if stmt = index_query
          then Inr (map snd (filter (\<lambda>ki. [fst ki] = params) (index_names c)))
        else Inl (OtherException ''unknown query'')),
      execute = (\<lambda>c stmt.
        case map_of script stmt of
          None \<Rightarrow> (Some (CQLEngineException ''unknown statement''), c)
        | Some e \<Rightarrow> apply_effect e c)\<rparr>"

text \<open>
  \<^verbatim>\<open>json.dumps\<close> for the examples: the dictionary is walked in the key order given, and
  keys and strings are taken to need no escaping.
\<close>

fun str_nat :: "nat \<Rightarrow> string" where
  "str_nat n =
     (if n < 10 then [''0123456789'' ! n]
      else str_nat (n div 10) @ [''0123456789'' ! (n mod 10)])"

definition str_int :: "int \<Rightarrow> string" where
  "str_int i = (if i < 0 then ''-'' @ str_nat (nat (- i)) else str_nat (nat i))"

fun render :: "jvalue \<Rightarrow> string" where
  "render (JString s) = quoted s"
| "render (JNumber i) = str_int i"

definition dumps_keys :: "string list \<Rightarrow> (string \<rightharpoonup> jvalue) \<Rightarrow> string" where
  "dumps_keys keys m =
     ''{'' @
     join '', '' (concat (map (\<lambda>k. case m k of None \<Rightarrow> []
                                  | Some v \<Rightarrow> [quoted k @ '': '' @ render v]) keys)) @
     ''}''"

definition demo_dumps :: "(string \<rightharpoonup> jvalue) \<Rightarrow> string" where
  "demo_dumps = dumps_keys [''class'', ''replication_factor'', ''dc1'', ''dc2'']"

text \<open>
  The model of the examples: table \<open>users\<close> in keyspace \<open>ks\<close>, partition key \<open>pk1\<close>,
  clustering keys \<open>ck1\<close> then \<open>ck2\<close> without a declared order, and an indexed column
  \<open>email\<close>.
\<close>

definition pk1 :: column where
  "pk1 = \<lparr>db_field_name = ''pk1'', get_column_def = quoted ''pk1'' @ '' uuid'',
          primary_key = True, partition_key = True, index = False, clustering_order = None\<rparr>"

definition ck1 :: column where
  "ck1 = \<lparr>db_field_name = ''ck1'', get_column_def = quoted ''ck1'' @ '' int'',
          primary_key = True, partition_key = False, index = False, clustering_order = None\<rparr>"

definition ck2 :: column where
  "ck2 = \<lparr>db_field_name = ''ck2'', get_column_def = quoted ''ck2'' @ '' int'',
          primary_key = True, partition_key = False, index = False, clustering_order = None\<rparr>"

definition email :: column where
  "email = \<lparr>db_field_name = ''email'', get_column_def = quoted ''email'' @ '' text'',
            primary_key = False, partition_key = False, index = True, clustering_order = None\<rparr>"

definition users :: model where
  "users =
     \<lparr>abstract = False,
      column_family_name = (\<lambda>include_keyspace. if include_keyspace then ''ks.users'' else ''users''),
      get_keyspace = ''ks'',
      columns = [(''pk1'', pk1), (''ck1'', ck1), (''ck2'', ck2), (''email'', email)],
      clustering_keys = [(''ck1'', ck1), (''ck2'', ck2)],
      read_repair_chance = ''0.1''\<rparr>"

text \<open>The statements the example cluster accepts, and a cluster with an empty catalog.\<close>

definition demo_script :: "(string \<times> effect) list" where
  "demo_script =
     [(create_keyspace_query (scripted demo_dumps []) ''ks'' ''SimpleStrategy'' 3 True Map.empty,
       AddKeyspace ''ks''),
      (create_table_query users, AddTable ''ks'' ''users''),
      (create_index_query ''ks.users'' ''users'' email,
       AddIndex ''ks'' ''users.index_users_email'')]"

definition demo :: "catalog backend" where
  "demo = scripted demo_dumps demo_script"

definition empty_world :: "catalog world" where
  "empty_world =
     \<lparr>cluster = \<lparr>keyspace_names = [], table_names = [], index_names = []\<rparr>, issued = []\<rparr>"

text \<open>A cluster that already has the keyspace, the table and the index of the example.\<close>

definition synced_world :: "catalog world" where
  "synced_world =
     \<lparr>cluster = \<lparr>keyspace_names = [''ks''], table_names = [(''ks'', ''users'')],
                  index_names = [(''ks'', ''users.index_users_email'')]\<rparr>,
      issued = []\<rparr>"

text \<open>
  A cluster in which another caller has created the table between the read of the table
  names and the CREATE TABLE statement, and one that refuses the statement for another
  reason.
\<close>

definition racing :: "catalog backend" where
  "racing =
     scripted demo_dumps
       [(create_table_query users,
         Raises (CQLEngineException ''Cannot add already existing column family users''))]"

definition refusing :: "catalog backend" where
  "refusing =
     scripted demo_dumps
       [(create_table_query users, Raises (CQLEngineException ''unauthorized''))]"

text \<open>
  A cluster whose connection raises an exception of another class that carries the same
  message.
\<close>

definition racing_other :: "catalog backend" where
  "racing_other =
     scripted demo_dumps
       [(create_table_query users,
         Raises (OtherException ''Cannot add already existing column family users''))]"

section \<open>Properties\<close>

subsection \<open>The substring test\<close>

text \<open>\<open>str_contains\<close> decides the contiguous sublist relation of the library.\<close>

lemma str_contains_sublist: "str_contains s sub = sublist sub s"
  by (induction s) (auto simp: sublist_Cons_right)

subsection \<open>The trace only grows\<close>

lemma run_read_simps:
  "fst (run_read d stmt params w) = con_execute d (cluster w) stmt params"
  "cluster (snd (run_read d stmt params w)) = cluster w"
  "issued (snd (run_read d stmt params w)) = issued w @ [Read stmt params]"
  by (simp_all add: run_read_def)

lemma run_execute_issued: "issued (snd (run_execute d stmt w)) = issued w @ [DDL stmt]"
  by (simp add: run_execute_def split: prod.split)

lemma run_execute_eq:
  "execute d (cluster w) stmt = (r, c') \<Longrightarrow>
   run_execute d stmt w = (r, \<lparr>cluster = c', issued = issued w @ [DDL stmt]\<rparr>)"
  by (simp add: run_execute_def)

lemma execute_create_table_issued:
  "issued (snd (execute_create_table d qs w)) = issued w @ [DDL qs]"
proof -
  obtain r w' where rw: "run_execute d qs w = (r, w')" by (cases "run_execute d qs w")
  then have "issued w' = issued w @ [DDL qs]"
    using run_execute_issued [of d qs w] by simp
  with rw show ?thesis
    by (simp add: execute_create_table_def split: option.split exn.split)
qed

lemma create_indexes_mono:
  "prefix (issued w) (issued (snd (create_indexes d cf raw idx cols w)))"
proof (induction cols arbitrary: w)
  case Nil
  show ?case by simp
next
  case (Cons col cols)
  show ?case
  proof (cases "raw @ ''.'' @ idx_name raw col \<in> set idx")
    case True
    with Cons.IH show ?thesis by simp
  next
    case False
    obtain r w' where rw: "run_execute d (create_index_query cf raw col) w = (r, w')"
      by (cases "run_execute d (create_index_query cf raw col) w")
    then have iss: "issued w' = issued w @ [DDL (create_index_query cf raw col)]"
      using run_execute_issued [of d "create_index_query cf raw col" w] by simp
    show ?thesis
    proof (cases r)
      case None
      have "prefix (issued w) (issued w')" using iss by simp
      also have "prefix (issued w') (issued (snd (create_indexes d cf raw idx cols w')))"
        by (rule Cons.IH)
      finally show ?thesis using False rw None by simp
    next
      case (Some ex)
      with False rw iss show ?thesis by simp
    qed
  qed
qed

lemma index_pass_mono: "prefix (issued w) (issued (snd (index_pass d m w)))"
proof (cases "con_execute d (cluster w) index_query [get_keyspace m]")
  case (Inl ex)
  then show ?thesis by (simp add: index_pass_def run_read_def)
next
  case (Inr idx)
  let ?w1 = "w\<lparr>issued := issued w @ [Read index_query [get_keyspace m]]\<rparr>"
  have "prefix (issued w) (issued ?w1)" by simp
  also have "prefix (issued ?w1)
     (issued (snd (create_indexes d (column_family_name m True) (column_family_name m False) idx
         (filter index (map snd (columns m))) ?w1)))"
    by (rule create_indexes_mono)
  finally show ?thesis using Inr by (simp add: index_pass_def run_read_def)
qed

lemma table_pass_mono: "prefix (issued w) (issued (snd (table_pass d m w)))"
  by (cases "con_execute d (cluster w) tables_query [get_keyspace m]")
     (simp_all add: table_pass_def run_read_def Let_def execute_create_table_issued)

lemma create_keyspace_mono:
  "prefix (issued w) (issued (snd (create_keyspace d name sc rf dw rv w)))"
proof (cases "con_execute d (cluster w) keyspaces_query []")
  case (Inl ex)
  then show ?thesis by (simp add: create_keyspace_def run_read_def)
next
  case (Inr ks)
  let ?w1 = "w\<lparr>issued := issued w @ [Read keyspaces_query []]\<rparr>"
  let ?q = "create_keyspace_query d name sc rf dw rv"
  obtain r w' where rw: "run_execute d ?q ?w1 = (r, w')" by (cases "run_execute d ?q ?w1")
  then have "issued w' = issued ?w1 @ [DDL ?q]"
    using run_execute_issued [of d ?q ?w1] by simp
  with Inr rw show ?thesis
    by (simp add: create_keyspace_def run_read_def split: option.split)
qed

lemma fold_add_column:
  "fold (\<lambda>(name, col). add_column col) cols (pkeys, ckeys, qtypes) =
     (pkeys @ map (\<lambda>c. quoted (db_field_name c))
                (filter (\<lambda>c. primary_key c \<and> partition_key c) (map snd cols)),
      ckeys @ map (\<lambda>c. quoted (db_field_name c))
                (filter (\<lambda>c. primary_key c \<and> \<not> partition_key c) (map snd cols)),
      qtypes @ map get_column_def (map snd cols))"
  by (induction cols arbitrary: pkeys ckeys qtypes) (auto simp: add_column_def Let_def)

lemma sep_join: "xs \<noteq> [] \<Longrightarrow> sep @ join sep xs = concat (map (\<lambda>x. sep @ x) xs)"
  by (induction sep xs rule: join.induct) simp_all

subsection \<open>The statement texts\<close>

lemma column_clauses_spec:
  "column_clauses m =
     ''('' @ join '', '' (map get_column_def (map snd (columns m)) @ [spec_primary_key m]) @ '')''"
proof -
  let ?ck = "map (\<lambda>c. quoted (db_field_name c)) (clustering_key_columns m)"
  have "(if ?ck \<noteq> [] then '', '' @ join '', '' ?ck else []) =
        concat (map (\<lambda>c. '', '' @ quoted (db_field_name c)) (clustering_key_columns m))"
    using sep_join [of ?ck "'', ''"] by (simp add: map_map comp_def del: map_is_Nil_conv Nil_is_map_conv)
  then show ?thesis
    unfolding column_clauses_def fold_add_column spec_primary_key_def
      partition_key_columns_def clustering_key_columns_def
    by (simp add: Let_def)
qed

lemma create_table_issues:
  assumes "\<not> abstract m"
    and "keyspace_pass d m cmk w = (Inr (), w1)"
    and "con_execute d (cluster w1) tables_query [get_keyspace m] = Inr tables"
    and "column_family_name m False \<notin> set tables"
  shows "prefix (issued w1 @ [Read tables_query [get_keyspace m], DDL (create_table_query m)])
           (issued (snd (create_table d m cmk w)))"
proof -
  let ?w2 = "w1\<lparr>issued := issued w1 @ [Read tables_query [get_keyspace m]]\<rparr>"
  have tp: "table_pass d m w1 = execute_create_table d (create_table_query m) ?w2"
    using assms(3,4) by (simp add: table_pass_def run_read_def Let_def)
  obtain r w3 where rw: "execute_create_table d (create_table_query m) ?w2 = (r, w3)"
    by (cases "execute_create_table d (create_table_query m) ?w2")
  then have iss: "issued w3 = issued w1 @ [Read tables_query [get_keyspace m], DDL (create_table_query m)]"
    using execute_create_table_issued [of d "create_table_query m" ?w2] by simp
  show ?thesis
  proof (cases r)
    case (Inl ex)
    with assms(1,2) tp rw iss show ?thesis by (simp add: create_table_def)
  next
    case (Inr u)
    have "prefix (issued w3) (issued (snd (index_pass d m w3)))" by (rule index_pass_mono)
    with assms(1,2) tp rw iss Inr show ?thesis by (simp add: create_table_def)
  qed
qed

lemma create_indexes_trace:
  "prefix (issued (snd (create_indexes d cf raw idx cols w)))
     (issued w @ map (\<lambda>c. DDL (create_index_query cf raw c))
        (filter (\<lambda>c. raw @ ''.'' @ idx_name raw c \<notin> set idx) cols)) \<and>
   (fst (create_indexes d cf raw idx cols w) = Inr () \<longrightarrow>
    issued (snd (create_indexes d cf raw idx cols w)) =
      issued w @ map (\<lambda>c. DDL (create_index_query cf raw c))
        (filter (\<lambda>c. raw @ ''.'' @ idx_name raw c \<notin> set idx) cols))"
proof (induction cols arbitrary: w)
  case Nil
  show ?case by simp
next
  case (Cons col cols)
  show ?case
  proof (cases "raw @ ''.'' @ idx_name raw col \<in> set idx")
    case True
    with Cons.IH [of w] show ?thesis by simp
  next
    case False
    obtain r w' where rw: "run_execute d (create_index_query cf raw col) w = (r, w')"
      by (cases "run_execute d (create_index_query cf raw col) w")
    then have iss: "issued w' = issued w @ [DDL (create_index_query cf raw col)]"
      using run_execute_issued [of d "create_index_query cf raw col" w] by simp
    show ?thesis
    proof (cases r)
      case None
      with False rw iss Cons.IH [of w'] show ?thesis by simp
    next
      case (Some ex)
      with False rw iss show ?thesis by simp
    qed
  qed
qed

lemma create_keyspace_issued:
  "issued (snd (create_keyspace d name sc rf dw rv w)) = issued w @ [Read keyspaces_query []] \<or>
   issued (snd (create_keyspace d name sc rf dw rv w)) =
     issued w @ [Read keyspaces_query [], DDL (create_keyspace_query d name sc rf dw rv)]"
proof (cases "con_execute d (cluster w) keyspaces_query []")
  case (Inl ex)
  then show ?thesis by (simp add: create_keyspace_def run_read_def)
next
  case (Inr ks)
  let ?w1 = "w\<lparr>issued := issued w @ [Read keyspaces_query []]\<rparr>"
  let ?q = "create_keyspace_query d name sc rf dw rv"
  obtain r w' where rw: "run_execute d ?q ?w1 = (r, w')" by (cases "run_execute d ?q ?w1")
  then have "issued w' = issued ?w1 @ [DDL ?q]"
    using run_execute_issued [of d ?q ?w1] by simp
  with Inr rw show ?thesis
    by (simp add: create_keyspace_def run_read_def split: option.split)
qed

lemma durable_writes_suffix:
  "(suffix '' AND DURABLE_WRITES = true'' (create_keyspace_query d name sc rf dw rv) \<or>
    suffix '' AND DURABLE_WRITES = false'' (create_keyspace_query d name sc rf dw rv)) =
   (sc \<noteq> ''SimpleStrategy'')"
  by (simp add: create_keyspace_query_def Let_def suffix_to_prefix)

lemma durable_writes_value:
  "sc \<noteq> ''SimpleStrategy'' \<Longrightarrow>
   suffix ('' AND DURABLE_WRITES = '' @ (if dw then ''true'' else ''false''))
     (create_keyspace_query d name sc rf dw rv)"
  by (simp add: create_keyspace_query_def Let_def suffix_def)

lemmas demo_defs =
  create_table_def keyspace_pass_def table_pass_def index_pass_def create_keyspace_def
  delete_keyspace_def delete_table_def
  run_read_def run_execute_def execute_create_table_def
  demo_def racing_def refusing_def scripted_def demo_script_def empty_world_def
  keyspaces_query_def tables_query_def index_query_def
  create_keyspace_query_def replication_map_def demo_dumps_def dumps_keys_def replace_def
  quoted_def str_int_def Let_def
  create_table_query_def column_clauses_def with_clause_def
  users_def pk1_def ck1_def ck2_def email_def
  add_column_def order_or_asc_def create_index_query_def idx_name_def

lemma users_statement:
  \<open>create_table_query users =
     ''CREATE TABLE ks.users ("pk1" uuid, "ck1" int, "ck2" int, "email" text, PRIMARY KEY (("pk1"), "ck1", "ck2")) WITH read_repair_chance = 0.1 AND clustering order by (ck1 ASC, ck2 ASC)''\<close>
  by (simp add: demo_defs)

lemma demo_run:
  "issued (snd (create_table demo users True empty_world)) =
     [Read keyspaces_query [],
      DDL (create_keyspace_query demo ''ks'' ''SimpleStrategy'' 3 True Map.empty),
      Read tables_query [''ks''],
      DDL (create_table_query users),
      Read index_query [''ks''],
      DDL (create_index_query ''ks.users'' ''users'' email)]"
  by (simp add: demo_defs)

section \<open>The claims\<close>

subsection \<open>C1: the PRIMARY KEY clause\<close>

text \<open>
  C1, as stated, gives \<^verbatim>\<open>PRIMARY KEY ((pk1), ck1, ck2)\<close> for partition key \<open>pk1\<close> and
  clustering keys \<open>ck1\<close>, \<open>ck2\<close>. On the example model \<^verbatim>\<open>create_table\<close> issues a
  statement whose clause writes every column name in double quotes, and the text of the
  claim does not occur in it.
\<close>

theorem primary_key_unquoted_counterexample:
  \<open>partition_key_columns users = [pk1] \<and> clustering_key_columns users = [ck1, ck2] \<and>
   issued (snd (create_table demo users True empty_world)) ! 3 =
     DDL ''CREATE TABLE ks.users ("pk1" uuid, "ck1" int, "ck2" int, "email" text, PRIMARY KEY (("pk1"), "ck1", "ck2")) WITH read_repair_chance = 0.1 AND clustering order by (ck1 ASC, ck2 ASC)'' \<and>
   \<not> str_contains (create_table_query users) ''PRIMARY KEY ((pk1), ck1, ck2)''\<close>
proof -
  have "partition_key_columns users = [pk1]" "clustering_key_columns users = [ck1, ck2]"
    by (simp_all add: partition_key_columns_def clustering_key_columns_def users_def
          pk1_def ck1_def ck2_def email_def)
  moreover have "issued (snd (create_table demo users True empty_world)) ! 3 =
      DDL (create_table_query users)"
    by (simp add: demo_run)
  moreover have "\<not> str_contains (create_table_query users) ''PRIMARY KEY ((pk1), ck1, ck2)''"
    unfolding users_statement by simp
  ultimately show ?thesis by (simp only: users_statement) simp
qed

text \<open>
  C1, amended: for a model that is not abstract, when the keyspace step has returned and the
  bare table name is not among the table names read, \<^verbatim>\<open>create_table\<close> issues, right
  after that read, the CREATE TABLE statement whose parenthesised part lists the column
  definitions in declaration order and then the PRIMARY KEY clause: the partition-key
  columns in declaration order as a tuple in parentheses, followed by the clustering-key
  columns in declaration order, each name in double quotes.
\<close>

theorem create_table_primary_key:
  assumes "\<not> abstract m"
    and "keyspace_pass d m cmk w = (Inr (), w1)"
    and "con_execute d (cluster w1) tables_query [get_keyspace m] = Inr tables"
    and "column_family_name m False \<notin> set tables"
  shows "prefix
           (issued w1 @
            [Read tables_query [get_keyspace m],
             DDL (''CREATE TABLE '' @ column_family_name m True @ '' ('' @
                  join '', '' (map get_column_def (map snd (columns m)) @ [spec_primary_key m]) @
                  '') '' @ with_clause m)])
           (issued (snd (create_table d m cmk w)))"
  using create_table_issues [OF assms]
  by (simp add: create_table_query_def column_clauses_spec)

theorem create_table_primary_key_witness:
  \<open>spec_primary_key users = ''PRIMARY KEY (("pk1"), "ck1", "ck2")'' \<and>
   prefix
     ([Read tables_query [''ks''],
       DDL (''CREATE TABLE ks.users ('' @
            join '', '' (map get_column_def [pk1, ck1, ck2, email] @
                         [''PRIMARY KEY (("pk1"), "ck1", "ck2")'']) @
            '') '' @ with_clause users)])
     (issued (snd (create_table demo users False empty_world)))\<close>
proof -
  have a: "\<not> abstract users" by (simp add: users_def)
  have b: "keyspace_pass demo users False empty_world = (Inr (), empty_world)"
    by (simp add: keyspace_pass_def)
  have c: "con_execute demo (cluster empty_world) tables_query [get_keyspace users] = Inr []"
    by (simp add: demo_def scripted_def empty_world_def keyspaces_query_def tables_query_def)
  have d: "column_family_name users False \<notin> set []" by simp
  have e: "spec_primary_key users = ''PRIMARY KEY (('' @ quoted ''pk1'' @ ''), '' @
      quoted ''ck1'' @ '', '' @ quoted ''ck2'' @ '')''"
    by (simp add: spec_primary_key_def partition_key_columns_def clustering_key_columns_def
          users_def pk1_def ck1_def ck2_def email_def)
  from create_table_primary_key [OF a b c d] e show ?thesis
    by (simp add: users_def empty_world_def quoted_def)
qed

subsection \<open>C2: abstract models\<close>

text \<open>
  C2: for an abstract model \<^verbatim>\<open>create_table\<close> raises the \<^verbatim>\<open>CQLEngineException\<close>
  of line 50, whatever the cluster and the \<^verbatim>\<open>create_missing_keyspace\<close> argument are,
  and the world is returned as it was: the cluster is unchanged and neither a read nor a
  statement has been issued.
\<close>

theorem create_table_abstract:
  "abstract m \<Longrightarrow>
   create_table d m cmk w = (Inl (CQLEngineException ''cannot create table from abstract model''), w)"
  by (simp add: create_table_def)

theorem create_table_abstract_witness:
  "create_table demo (users\<lparr>abstract := True\<rparr>) True empty_world =
     (Inl (CQLEngineException ''cannot create table from abstract model''), empty_world) \<and>
   create_table demo (users\<lparr>abstract := True\<rparr>) False empty_world =
     (Inl (CQLEngineException ''cannot create table from abstract model''), empty_world)"
  using create_table_abstract [of "users\<lparr>abstract := True\<rparr>" demo True empty_world]
    create_table_abstract [of "users\<lparr>abstract := True\<rparr>" demo False empty_world]
  by simp

subsection \<open>C3: a table that another caller has created\<close>

text \<open>
  C3, as stated, drops every failure of the CREATE TABLE statement whose message contains
  \<^verbatim>\<open>Cannot add already existing column family\<close>, and lets every other failure reach
  the caller as a schema error. The \<^verbatim>\<open>except\<close> clause of line 103 names
  \<^verbatim>\<open>CQLEngineException\<close> only: when the statement raises an exception of another class
  whose message contains that text, \<^verbatim>\<open>create_table\<close> does not drop it and does not go
  on to the index pass; the exception reaches the caller, and it is not a
  \<^verbatim>\<open>CQLEngineException\<close>.
\<close>

theorem other_exception_not_swallowed_counterexample:
  "execute racing_other (cluster empty_world) (create_table_query users) =
     (Some (OtherException ''Cannot add already existing column family users''),
      cluster empty_world) \<and>
   str_contains ''Cannot add already existing column family users''
     ''Cannot add already existing column family'' \<and>
   create_table racing_other users False empty_world =
     (Inl (OtherException ''Cannot add already existing column family users''),
      \<lparr>cluster = cluster empty_world,
       issued = [Read tables_query [''ks''], DDL (create_table_query users)]\<rparr>)"
proof -
  have "execute racing_other (cluster empty_world) (create_table_query users) =
     (Some (OtherException ''Cannot add already existing column family users''),
      cluster empty_world)"
    by (simp add: racing_other_def scripted_def)
  moreover have "str_contains ''Cannot add already existing column family users''
     ''Cannot add already existing column family''"
    by simp
  moreover have "create_table racing_other users False empty_world =
     (Inl (OtherException ''Cannot add already existing column family users''),
      \<lparr>cluster = cluster empty_world,
       issued = [Read tables_query [''ks''], DDL (create_table_query users)]\<rparr>)"
    by (simp add: create_table_def keyspace_pass_def table_pass_def run_read_def run_execute_def
          execute_create_table_def racing_other_def scripted_def empty_world_def
          keyspaces_query_def tables_query_def users_def Let_def)
  ultimately show ?thesis by (intro conjI)
qed

text \<open>
  C3, amended: for a model that is not abstract whose table is absent from the names read,
  when executing the CREATE TABLE statement raises an exception \<open>ex\<close>: if \<open>ex\<close> is a
  \<^verbatim>\<open>CQLEngineException\<close> (the schema error of the specification) whose message contains
  \<^verbatim>\<open>Cannot add already existing column family\<close>, it is dropped and \<^verbatim>\<open>create_table\<close>
  goes on with the index pass from the state the failed statement left; every other
  failure, that is a \<^verbatim>\<open>CQLEngineException\<close> without that text or an exception of any other
  class whatever its message, reaches the caller unchanged.
\<close>

theorem create_table_already_exists:
  assumes "\<not> abstract m"
    and "keyspace_pass d m cmk w = (Inr (), w1)"
    and "con_execute d (cluster w1) tables_query [get_keyspace m] = Inr tables"
    and "column_family_name m False \<notin> set tables"
    and "execute d (cluster w1) (create_table_query m) = (Some ex, c')"
  shows "create_table d m cmk w =
           (if (case ex of
                  CQLEngineException msg \<Rightarrow>
                    str_contains msg ''Cannot add already existing column family''
                | OtherException msg \<Rightarrow> False)
            then index_pass d m
                   \<lparr>cluster = c',
                    issued = issued w1 @
                      [Read tables_query [get_keyspace m], DDL (create_table_query m)]\<rparr>
            else (Inl ex,
                  \<lparr>cluster = c',
                   issued = issued w1 @
                     [Read tables_query [get_keyspace m], DDL (create_table_query m)]\<rparr>))"
proof -
  let ?w2 = "w1\<lparr>issued := issued w1 @ [Read tables_query [get_keyspace m]]\<rparr>"
  have "run_execute d (create_table_query m) ?w2 =
          (Some ex, \<lparr>cluster = c', issued = issued ?w2 @ [DDL (create_table_query m)]\<rparr>)"
    using assms(5) by (intro run_execute_eq) simp
  then show ?thesis
    using assms(1-4)
    by (cases ex)
       (simp_all add: create_table_def table_pass_def run_read_def Let_def
          execute_create_table_def)
qed

theorem create_table_already_exists_witness:
  "create_table racing users False empty_world =
     index_pass racing users
       \<lparr>cluster = cluster empty_world,
        issued = [Read tables_query [''ks''], DDL (create_table_query users)]\<rparr> \<and>
   create_table refusing users False empty_world =
     (Inl (CQLEngineException ''unauthorized''),
      \<lparr>cluster = cluster empty_world,
       issued = [Read tables_query [''ks''], DDL (create_table_query users)]\<rparr>) \<and>
   create_table racing_other users False empty_world =
     (Inl (OtherException ''Cannot add already existing column family users''),
      \<lparr>cluster = cluster empty_world,
       issued = [Read tables_query [''ks''], DDL (create_table_query users)]\<rparr>)"
proof -
  have a: "\<not> abstract users" by (simp add: users_def)
  have b: "keyspace_pass d users False empty_world = (Inr (), empty_world)" for d :: "catalog backend"
    by (simp add: keyspace_pass_def)
  have c: "con_execute racing (cluster empty_world) tables_query [get_keyspace users] = Inr []"
    "con_execute refusing (cluster empty_world) tables_query [get_keyspace users] = Inr []"
    "con_execute racing_other (cluster empty_world) tables_query [get_keyspace users] = Inr []"
    by (simp_all add: racing_def refusing_def racing_other_def scripted_def empty_world_def
          keyspaces_query_def tables_query_def)
  have d: "column_family_name users False \<notin> set []" by simp
  have e: "execute racing (cluster empty_world) (create_table_query users) =
      (Some (CQLEngineException ''Cannot add already existing column family users''),
       cluster empty_world)"
    by (simp add: racing_def scripted_def)
  have f: "execute refusing (cluster empty_world) (create_table_query users) =
      (Some (CQLEngineException ''unauthorized''), cluster empty_world)"
    by (simp add: refusing_def scripted_def)
  have f': "execute racing_other (cluster empty_world) (create_table_query users) =
      (Some (OtherException ''Cannot add already existing column family users''),
       cluster empty_world)"
    by (simp add: racing_other_def scripted_def)
  have g: "str_contains ''Cannot add already existing column family users''
      ''Cannot add already existing column family''"
    by simp
  have h: "\<not> str_contains ''unauthorized'' ''Cannot add already existing column family''"
    by simp
  from create_table_already_exists [OF a b c(1) d e]
    create_table_already_exists [OF a b c(2) d f]
    create_table_already_exists [OF a b c(3) d f'] g h
  show ?thesis by (simp add: users_def empty_world_def)
qed

subsection \<open>C4: the WITH clause\<close>

text \<open>
  C4, as stated, has no clustering-order clause when no clustering key declares an order.
  The clustering keys \<open>ck1\<close> and \<open>ck2\<close> of the example model declare none, and the
  statement that \<^verbatim>\<open>create_table\<close> issues ends with a clustering-order clause that
  lists both as \<^verbatim>\<open>ASC\<close>.
\<close>

theorem clustering_order_default_counterexample:
  \<open>clustering_keys users = [(''ck1'', ck1), (''ck2'', ck2)] \<and>
   clustering_order ck1 = None \<and> clustering_order ck2 = None \<and>
   issued (snd (create_table demo users True empty_world)) ! 3 = DDL (create_table_query users) \<and>
   suffix '' WITH read_repair_chance = 0.1 AND clustering order by (ck1 ASC, ck2 ASC)''
     (create_table_query users)\<close>
proof -
  have "clustering_keys users = [(''ck1'', ck1), (''ck2'', ck2)]"
    "clustering_order ck1 = None" "clustering_order ck2 = None"
    by (simp_all add: users_def ck1_def ck2_def)
  moreover have "issued (snd (create_table demo users True empty_world)) ! 3 =
      DDL (create_table_query users)"
    by (simp add: demo_run)
  moreover have "suffix '' WITH read_repair_chance = 0.1 AND clustering order by (ck1 ASC, ck2 ASC)''
     (create_table_query users)"
    unfolding users_statement by (simp add: suffix_to_prefix)
  ultimately show ?thesis by blast
qed

text \<open>
  C4, amended: for a model that is not abstract whose table is absent from the names read,
  the CREATE TABLE statement that \<^verbatim>\<open>create_table\<close> issues always has the clause
  \<^verbatim>\<open>WITH read_repair_chance = <value>\<close>, and it has the clause
  \<^verbatim>\<open>AND clustering order by (...)\<close> exactly when the model has at least one clustering
  key; the clause lists every clustering key with its declared order, or with \<^verbatim>\<open>ASC\<close>
  where none is declared. A model without clustering keys has no such clause.
\<close>

theorem create_table_with_clause:
  assumes "\<not> abstract m"
    and "keyspace_pass d m cmk w = (Inr (), w1)"
    and "con_execute d (cluster w1) tables_query [get_keyspace m] = Inr tables"
    and "column_family_name m False \<notin> set tables"
  shows "prefix
           (issued w1 @
            [Read tables_query [get_keyspace m],
             DDL (''CREATE TABLE '' @ column_family_name m True @ '' '' @ column_clauses m @
                  '' WITH read_repair_chance = '' @ read_repair_chance m @
                  (if clustering_keys m = [] then []
                   else '' AND clustering order by ('' @
                        join '', '' (map (\<lambda>c. db_field_name c @ '' '' @
                                             order_or_asc (clustering_order c))
                                       (map snd (clustering_keys m))) @ '')''))])
           (issued (snd (create_table d m cmk w)))"
proof -
  have "create_table_query m =
          ''CREATE TABLE '' @ column_family_name m True @ '' '' @ column_clauses m @
          '' WITH read_repair_chance = '' @ read_repair_chance m @
          (if clustering_keys m = [] then []
           else '' AND clustering order by ('' @
                join '', '' (map (\<lambda>c. db_field_name c @ '' '' @
                                     order_or_asc (clustering_order c))
                               (map snd (clustering_keys m))) @ '')'')"
    by (cases "clustering_keys m = []")
       (simp_all add: create_table_query_def with_clause_def Let_def)
  with create_table_issues [OF assms] show ?thesis by (simp only:)
qed

theorem create_table_with_clause_witness:
  "prefix
     [Read tables_query [''ks''],
      DDL (''CREATE TABLE ks.users '' @ column_clauses users @
           '' WITH read_repair_chance = 0.1 AND clustering order by (ck1 ASC, ck2 ASC)'')]
     (issued (snd (create_table demo users False empty_world))) \<and>
   prefix
     [Read tables_query [''ks''],
      DDL (''CREATE TABLE ks.users '' @ column_clauses (users\<lparr>clustering_keys := []\<rparr>) @
           '' WITH read_repair_chance = 0.1'')]
     (issued (snd (create_table demo (users\<lparr>clustering_keys := []\<rparr>) False empty_world)))"
proof -
  have a: "\<not> abstract users" "\<not> abstract (users\<lparr>clustering_keys := []\<rparr>)"
    by (simp_all add: users_def)
  have b: "keyspace_pass demo m False empty_world = (Inr (), empty_world)" for m
    by (simp add: keyspace_pass_def)
  have c: "con_execute demo (cluster empty_world) tables_query [get_keyspace users] = Inr []"
    "con_execute demo (cluster empty_world) tables_query
        [get_keyspace (users\<lparr>clustering_keys := []\<rparr>)] = Inr []"
    by (simp_all add: demo_def scripted_def empty_world_def keyspaces_query_def tables_query_def)
  have d: "column_family_name users False \<notin> set []"
    "column_family_name (users\<lparr>clustering_keys := []\<rparr>) False \<notin> set []"
    by simp_all
  from create_table_with_clause [OF a(1) b c(1) d(1)]
    create_table_with_clause [OF a(2) b c(2) d(2)]
  show ?thesis
    by (simp add: users_def empty_world_def ck1_def ck2_def order_or_asc_def)
qed

subsection \<open>C8: deleting what is absent\<close>

text \<open>
  C8: when the keyspace name is not among the keyspace names read, \<^verbatim>\<open>delete_keyspace\<close>
  returns without an exception, and all it has sent is that read; when the bare table name
  of a model is not among the table names read for its keyspace, \<^verbatim>\<open>delete_table\<close> does
  the same. In both cases no statement is issued and the cluster is the one before the call.
\<close>

theorem delete_absent_noop:
  "(con_execute d (cluster w) keyspaces_query [] = Inr keyspaces \<and> name \<notin> set keyspaces \<longrightarrow>
      delete_keyspace d name w = (Inr (), w\<lparr>issued := issued w @ [Read keyspaces_query []]\<rparr>)) \<and>
   (con_execute d (cluster w) tables_query [get_keyspace m] = Inr tables \<and>
    column_family_name m False \<notin> set tables \<longrightarrow>
      delete_table d m w =
        (Inr (), w\<lparr>issued := issued w @ [Read tables_query [get_keyspace m]]\<rparr>))"
  by (simp add: delete_keyspace_def delete_table_def run_read_def Let_def)

theorem delete_absent_noop_witness:
  "delete_keyspace demo ''ks'' empty_world =
     (Inr (), \<lparr>cluster = cluster empty_world, issued = [Read keyspaces_query []]\<rparr>) \<and>
   delete_table demo users empty_world =
     (Inr (), \<lparr>cluster = cluster empty_world, issued = [Read tables_query [''ks'']]\<rparr>)"
proof -
  have a: "con_execute demo (cluster empty_world) keyspaces_query [] = Inr []"
    by (simp add: demo_def scripted_def empty_world_def)
  have b: "con_execute demo (cluster empty_world) tables_query [get_keyspace users] = Inr []"
    by (simp add: demo_def scripted_def empty_world_def keyspaces_query_def tables_query_def)
  from delete_absent_noop [of demo empty_world "[]" "''ks''" users "[]"] a b
  show ?thesis by (simp add: users_def empty_world_def)
qed

lemma create_keyspace_issues:
  assumes "con_execute d (cluster w) keyspaces_query [] = Inr keyspaces"
    and "name \<notin> set keyspaces"
  shows "issued (snd (create_keyspace d name sc rf dw rv w)) =
           issued w @ [Read keyspaces_query [], DDL (create_keyspace_query d name sc rf dw rv)]"
proof -
  let ?w1 = "w\<lparr>issued := issued w @ [Read keyspaces_query []]\<rparr>"
  let ?q = "create_keyspace_query d name sc rf dw rv"
  obtain r w' where rw: "run_execute d ?q ?w1 = (r, w')" by (cases "run_execute d ?q ?w1")
  then have "issued w' = issued ?w1 @ [DDL ?q]"
    using run_execute_issued [of d ?q ?w1] by simp
  with assms rw show ?thesis
    by (simp add: create_keyspace_def run_read_def split: option.split)
qed

subsection \<open>C5: the durable-writes clause\<close>

text \<open>
  C5: every statement that a call of \<^verbatim>\<open>create_keyspace\<close> issues ends with
  \<^verbatim>\<open>AND DURABLE_WRITES = true\<close> or \<^verbatim>\<open>AND DURABLE_WRITES = false\<close> if and only if the
  strategy class differs from \<^verbatim>\<open>SimpleStrategy\<close>, and then the value is the one the
  \<^verbatim>\<open>durable_writes\<close> argument selects. With the default strategy the statement ends
  with the indentation of the literal, so the clause is left out.
\<close>

theorem create_keyspace_durable_writes:
  assumes "issued (snd (create_keyspace d name sc rf dw rv w)) = issued w @ evs"
    and "DDL q \<in> set evs"
  shows "((suffix '' AND DURABLE_WRITES = true'' q \<or> suffix '' AND DURABLE_WRITES = false'' q) =
          (sc \<noteq> ''SimpleStrategy'')) \<and>
         (sc \<noteq> ''SimpleStrategy'' \<longrightarrow>
          suffix ('' AND DURABLE_WRITES = '' @ (if dw then ''true'' else ''false'')) q)"
proof -
  have "q = create_keyspace_query d name sc rf dw rv"
    using create_keyspace_issued [of d name sc rf dw rv w] assms by auto
  then show ?thesis
    using durable_writes_suffix [of d name sc rf dw rv] durable_writes_value [of sc dw d name rf rv]
    by blast
qed

theorem create_keyspace_durable_writes_witness:
  "\<not> suffix '' AND DURABLE_WRITES = true''
       (create_keyspace_query demo ''ks'' ''SimpleStrategy'' 3 True Map.empty) \<and>
   \<not> suffix '' AND DURABLE_WRITES = false''
       (create_keyspace_query demo ''ks'' ''SimpleStrategy'' 3 True Map.empty) \<and>
   suffix '' AND DURABLE_WRITES = false''
     (create_keyspace_query demo ''k'' ''NetworkTopologyStrategy'' 3 False
        [''dc1'' \<mapsto> JNumber 3, ''dc2'' \<mapsto> JNumber 2])"
proof -
  let ?q1 = "create_keyspace_query demo ''ks'' ''SimpleStrategy'' 3 True Map.empty"
  let ?rv = "[''dc1'' \<mapsto> JNumber 3, ''dc2'' \<mapsto> JNumber 2]"
  let ?q2 = "create_keyspace_query demo ''k'' ''NetworkTopologyStrategy'' 3 False ?rv"
  have r: "con_execute demo (cluster empty_world) keyspaces_query [] = Inr []"
    by (simp add: demo_def scripted_def empty_world_def)
  have a: "issued (snd (create_keyspace demo ''ks'' ''SimpleStrategy'' 3 True Map.empty empty_world)) =
      issued empty_world @ [Read keyspaces_query [], DDL ?q1]"
    by (rule create_keyspace_issues [OF r]) simp
  have b: "issued (snd (create_keyspace demo ''k'' ''NetworkTopologyStrategy'' 3 False ?rv
        empty_world)) = issued empty_world @ [Read keyspaces_query [], DDL ?q2]"
    by (rule create_keyspace_issues [OF r]) simp
  have c: "DDL ?q1 \<in> set [Read keyspaces_query [], DDL ?q1]"
    "DDL ?q2 \<in> set [Read keyspaces_query [], DDL ?q2]"
    by simp_all
  from create_keyspace_durable_writes [OF a c(1)] create_keyspace_durable_writes [OF b c(2)]
  show ?thesis by simp
qed

subsection \<open>C6: the replication map\<close>

text \<open>
  C6: when the name is not among the keyspace names read, the statement that
  \<^verbatim>\<open>create_keyspace\<close> issues carries, after \<^verbatim>\<open>WITH REPLICATION =\<close>, the serialised
  replication map with its double quotes turned into single quotes. The keys of that map are
  \<^verbatim>\<open>class\<close>, \<^verbatim>\<open>replication_factor\<close> and the keys of the extra options; every extra
  option is in it with its value, also under the keys \<^verbatim>\<open>class\<close> and
  \<^verbatim>\<open>replication_factor\<close>; where the extra options have no such key, \<^verbatim>\<open>class\<close> is the
  strategy class and \<^verbatim>\<open>replication_factor\<close> the replication factor.
\<close>

theorem create_keyspace_replication_map:
  assumes "con_execute d (cluster w) keyspaces_query [] = Inr keyspaces"
    and "name \<notin> set keyspaces"
  shows "issued (snd (create_keyspace d name sc rf dw rv w)) =
           issued w @
           [Read keyspaces_query [],
            DDL (''\<newline>            CREATE KEYSPACE '' @ name @
                 ''\<newline>            WITH REPLICATION = '' @
                 replace (CHR 0x22) (CHR 0x27) (json_dumps d (replication_map sc rf rv)) @
                 ''\<newline>            '' @
                 (if sc \<noteq> ''SimpleStrategy''
                  then '' AND DURABLE_WRITES = '' @ (if dw then ''true'' else ''false'')
                  else []))] \<and>
         dom (replication_map sc rf rv) = {''class'', ''replication_factor''} \<union> dom rv \<and>
         (\<forall>k v. rv k = Some v \<longrightarrow> replication_map sc rf rv k = Some v) \<and>
         (rv ''class'' = None \<longrightarrow> replication_map sc rf rv ''class'' = Some (JString sc)) \<and>
         (rv ''replication_factor'' = None \<longrightarrow>
            replication_map sc rf rv ''replication_factor'' = Some (JNumber rf))"
proof -
  let ?rm = "replication_map sc rf rv"
  let ?q = "create_keyspace_query d name sc rf dw rv"
  have iss:
    "issued (snd (create_keyspace d name sc rf dw rv w)) =
       issued w @ [Read keyspaces_query [], DDL ?q]"
    by (rule create_keyspace_issues [OF assms])
  have q: "?q = ''\<newline>            CREATE KEYSPACE '' @ name @
                 ''\<newline>            WITH REPLICATION = '' @
                 replace (CHR 0x22) (CHR 0x27) (json_dumps d ?rm) @
                 ''\<newline>            '' @
                 (if sc \<noteq> ''SimpleStrategy''
                  then '' AND DURABLE_WRITES = '' @ (if dw then ''true'' else ''false'')
                  else [])"
    by (simp add: create_keyspace_query_def Let_def)
  have d: "dom ?rm = {''class'', ''replication_factor''} \<union> dom rv"
    by (auto simp: replication_map_def)
  have e: "\<forall>k v. rv k = Some v \<longrightarrow> ?rm k = Some v"
    by (simp add: replication_map_def map_add_def)
  have c: "rv ''class'' = None \<longrightarrow> ?rm ''class'' = Some (JString sc)"
    by (simp add: replication_map_def map_add_def)
  have f: "rv ''replication_factor'' = None \<longrightarrow> ?rm ''replication_factor'' = Some (JNumber rf)"
    by (simp add: replication_map_def map_add_def)
  from iss q d e c f show ?thesis by (simp only:) 
qed

theorem create_keyspace_replication_map_witness:
  "issued (snd (create_keyspace demo ''k'' ''NetworkTopologyStrategy'' 3 True
                  [''dc1'' \<mapsto> JNumber 3, ''dc2'' \<mapsto> JNumber 2] empty_world)) =
     [Read keyspaces_query [],
      DDL (''\<newline>            CREATE KEYSPACE k'' @
           ''\<newline>            WITH REPLICATION = '' @
           ''{'' @ [CHR 0x27] @ ''class'' @ [CHR 0x27] @ '': '' @
             [CHR 0x27] @ ''NetworkTopologyStrategy'' @ [CHR 0x27] @ '', '' @
             [CHR 0x27] @ ''replication_factor'' @ [CHR 0x27] @ '': 3, '' @
             [CHR 0x27] @ ''dc1'' @ [CHR 0x27] @ '': 3, '' @
             [CHR 0x27] @ ''dc2'' @ [CHR 0x27] @ '': 2}'' @
           ''\<newline>            '' @ '' AND DURABLE_WRITES = true'')] \<and>
   replication_map ''NetworkTopologyStrategy'' 3 [''dc1'' \<mapsto> JNumber 3, ''dc2'' \<mapsto> JNumber 2]
     ''class'' = Some (JString ''NetworkTopologyStrategy'') \<and>
   replication_map ''NetworkTopologyStrategy'' 3 [''dc1'' \<mapsto> JNumber 3, ''dc2'' \<mapsto> JNumber 2]
     ''dc1'' = Some (JNumber 3) \<and>
   replication_map ''NetworkTopologyStrategy'' 3 [''dc1'' \<mapsto> JNumber 3, ''dc2'' \<mapsto> JNumber 2]
     ''dc2'' = Some (JNumber 2) \<and>
   replication_map ''SimpleStrategy'' 3 [''class'' \<mapsto> JString ''Other''] ''class'' =
     Some (JString ''Other'')"
proof -
  let ?rv = "[''dc1'' \<mapsto> JNumber 3, ''dc2'' \<mapsto> JNumber 2]"
  let ?rm = "replication_map ''NetworkTopologyStrategy'' 3 ?rv"
  have a: "con_execute demo (cluster empty_world) keyspaces_query [] = Inr []"
    by (simp add: demo_def scripted_def empty_world_def)
  have b: "''k'' \<notin> set []" by simp
  have c: "json_dumps demo ?rm =
      ''{'' @ quoted ''class'' @ '': '' @ quoted ''NetworkTopologyStrategy'' @ '', '' @
      quoted ''replication_factor'' @ '': 3, '' @ quoted ''dc1'' @ '': 3, '' @
      quoted ''dc2'' @ '': 2}''"
    by (simp add: demo_def scripted_def demo_dumps_def dumps_keys_def replication_map_def
          str_int_def)
  have o: "[''class'' \<mapsto> JString ''Other''] ''class'' = Some (JString ''Other'')" by simp
  from create_keyspace_replication_map
         [OF a b, of "''NetworkTopologyStrategy''" 3 True ?rv]
    create_keyspace_replication_map
         [OF a b, of "''SimpleStrategy''" 3 True "[''class'' \<mapsto> JString ''Other'']"]
  have "issued (snd (create_keyspace demo ''k'' ''NetworkTopologyStrategy'' 3 True ?rv
                  empty_world)) =
      issued empty_world @
      [Read keyspaces_query [],
       DDL (''\<newline>            CREATE KEYSPACE '' @ ''k'' @
            ''\<newline>            WITH REPLICATION = '' @
            replace (CHR 0x22) (CHR 0x27) (json_dumps demo ?rm) @
            ''\<newline>            '' @ '' AND DURABLE_WRITES = true'')]"
    and "?rm ''class'' = Some (JString ''NetworkTopologyStrategy'')"
    and "?rm ''dc1'' = Some (JNumber 3)" and "?rm ''dc2'' = Some (JNumber 2)"
    and "replication_map ''SimpleStrategy'' 3 [''class'' \<mapsto> JString ''Other''] ''class'' =
           Some (JString ''Other'')"
    by simp_all
  then show ?thesis
    unfolding c by (simp add: empty_world_def replace_def quoted_def)
qed

subsection \<open>C7: the index pass\<close>

text \<open>
  C7: for a model that is not abstract, when the keyspace step and the table step have
  returned and the index names have been read, \<^verbatim>\<open>create_table\<close> sends after that read
  nothing but statements \<^verbatim>\<open>CREATE INDEX index_<table>_<column> ON <keyspace.table>
  ("<column>")\<close>, one for each indexed column, in declaration order, whose qualified name
  \<^verbatim>\<open><table>.index_<table>_<column>\<close> is not among the index names read, and none for
  an indexed column whose qualified name is among them. It sends all of them when it
  returns without an exception; an exception raised by one of the statements ends the pass
  there.
\<close>

theorem create_table_index_pass:
  assumes "\<not> abstract m"
    and "keyspace_pass d m cmk w = (Inr (), w1)"
    and "table_pass d m w1 = (Inr (), w2)"
    and "con_execute d (cluster w2) index_query [get_keyspace m] = Inr idx_names"
  shows "prefix (issued (snd (create_table d m cmk w)))
           (issued w2 @ Read index_query [get_keyspace m] #
            map (\<lambda>c. DDL (spec_create_index m c)) (missing_indexes m idx_names)) \<and>
         (fst (create_table d m cmk w) = Inr () \<longrightarrow>
          issued (snd (create_table d m cmk w)) =
            issued w2 @ Read index_query [get_keyspace m] #
            map (\<lambda>c. DDL (spec_create_index m c)) (missing_indexes m idx_names))"
proof -
  let ?w3 = "w2\<lparr>issued := issued w2 @ [Read index_query [get_keyspace m]]\<rparr>"
  let ?cf = "column_family_name m True" and ?raw = "column_family_name m False"
  have ct: "create_table d m cmk w =
          create_indexes d ?cf ?raw idx_names (filter index (map snd (columns m))) ?w3"
    using assms by (simp add: create_table_def index_pass_def run_read_def)
  have q: "create_index_query ?cf ?raw c = spec_create_index m c" for c
    by (simp add: create_index_query_def spec_create_index_def idx_name_def)
  have f: "filter (\<lambda>c. ?raw @ ''.'' @ idx_name ?raw c \<notin> set idx_names)
             (filter index (map snd (columns m))) = missing_indexes m idx_names"
    by (simp add: missing_indexes_def idx_name_def)
  show ?thesis
    using create_indexes_trace [of d ?cf ?raw idx_names "filter index (map snd (columns m))" ?w3]
    unfolding ct q f by simp
qed

theorem create_table_index_pass_witness:
  \<open>issued (snd (create_table demo users True empty_world)) =
     [Read keyspaces_query [],
      DDL (create_keyspace_query demo ''ks'' ''SimpleStrategy'' 3 True Map.empty),
      Read tables_query [''ks''],
      DDL (create_table_query users),
      Read index_query [''ks''],
      DDL ''CREATE INDEX index_users_email ON ks.users ("email")''] \<and>
   issued (snd (create_table demo users True synced_world)) =
     [Read keyspaces_query [], Read tables_query [''ks''], Read index_query [''ks'']]\<close>
proof -
  define w2 where "w2 =
    \<lparr>cluster = \<lparr>keyspace_names = [''ks''], table_names = [(''ks'', ''users'')],
                 index_names = []\<rparr>,
     issued = [Read keyspaces_query [],
               DDL (create_keyspace_query demo ''ks'' ''SimpleStrategy'' 3 True Map.empty),
               Read tables_query [''ks''], DDL (create_table_query users)]\<rparr>"
  define v1 where "v1 = synced_world\<lparr>issued := [Read keyspaces_query []]\<rparr>"
  define v2 where "v2 = synced_world\<lparr>issued := [Read keyspaces_query [], Read tables_query [''ks'']]\<rparr>"
  have a: "\<not> abstract users" by (simp add: users_def)
  have b: "keyspace_pass demo users True empty_world =
      (Inr (), \<lparr>cluster = \<lparr>keyspace_names = [''ks''], table_names = [], index_names = []\<rparr>,
               issued = [Read keyspaces_query [],
                 DDL (create_keyspace_query demo ''ks'' ''SimpleStrategy'' 3 True Map.empty)]\<rparr>)"
    by (simp add: demo_defs)
  have c: "table_pass demo users
      \<lparr>cluster = \<lparr>keyspace_names = [''ks''], table_names = [], index_names = []\<rparr>,
       issued = [Read keyspaces_query [],
         DDL (create_keyspace_query demo ''ks'' ''SimpleStrategy'' 3 True Map.empty)]\<rparr> =
      (Inr (), w2)"
    by (simp add: demo_defs w2_def)
  have d: "con_execute demo (cluster w2) index_query [get_keyspace users] = Inr []"
    by (simp add: demo_defs w2_def)
  have e: "fst (create_table demo users True empty_world) = Inr ()"
    by (simp add: demo_defs)
  have m: "missing_indexes users [] = [email]"
    by (simp add: missing_indexes_def users_def pk1_def ck1_def ck2_def email_def)
  have s: \<open>spec_create_index users email =
      ''CREATE INDEX index_users_email ON ks.users ("email")''\<close>
    by (simp add: spec_create_index_def users_def email_def quoted_def)
  have b': "keyspace_pass demo users True synced_world = (Inr (), v1)"
    by (simp add: demo_defs synced_world_def v1_def)
  have c': "table_pass demo users v1 = (Inr (), v2)"
    by (simp add: demo_defs synced_world_def v1_def v2_def)
  have d': "con_execute demo (cluster v2) index_query [get_keyspace users] =
      Inr [''users.index_users_email'']"
    by (simp add: demo_defs synced_world_def v2_def)
  have e': "fst (create_table demo users True synced_world) = Inr ()"
    by (simp add: demo_defs synced_world_def)
  have m': "missing_indexes users [''users.index_users_email''] = []"
    by (simp add: missing_indexes_def users_def pk1_def ck1_def ck2_def email_def)
  have g: "get_keyspace users = ''ks''" by (simp add: users_def)
  from create_table_index_pass [OF a b c d] e
  have one: "issued (snd (create_table demo users True empty_world)) =
      issued w2 @ [Read index_query [''ks''], DDL (spec_create_index users email)]"
    unfolding m g by simp
  from create_table_index_pass [OF a b' c' d'] e'
  have two: "issued (snd (create_table demo users True synced_world)) =
      issued v2 @ [Read index_query [''ks'']]"
    unfolding m' g by simp
  show ?thesis
    unfolding one two s by (simp add: w2_def v2_def)
qed

subsection \<open>C9: creating a keyspace twice\<close>



subsection \<open>C10: the keyspace that \<open>create_table\<close> creates\<close>

text \<open>
  C10: for a model that is not abstract, when \<^verbatim>\<open>create_table\<close> is called with
  \<^verbatim>\<open>create_missing_keyspace\<close> true and the keyspace of the model is not among the
  keyspace names read, the first statement issued is the CREATE KEYSPACE statement of the
  defaults: the replication map holds \<^verbatim>\<open>class\<close> \<^verbatim>\<open>SimpleStrategy\<close> and
  \<^verbatim>\<open>replication_factor\<close> 3 and nothing else, and the statement ends after the map,
  without a durable-writes clause. Nothing of the model but its keyspace name enters it.
\<close>

theorem create_table_default_keyspace:
  assumes "\<not> abstract m"
    and "con_execute d (cluster w) keyspaces_query [] = Inr keyspaces"
    and "get_keyspace m \<notin> set keyspaces"
  shows "prefix
           (issued w @
            [Read keyspaces_query [],
             DDL (''\<newline>            CREATE KEYSPACE '' @ get_keyspace m @
                  ''\<newline>            WITH REPLICATION = '' @
                  replace (CHR 0x22) (CHR 0x27)
                    (json_dumps d [''class'' \<mapsto> JString ''SimpleStrategy'',
                                   ''replication_factor'' \<mapsto> JNumber 3]) @
                  ''\<newline>            '')])
           (issued (snd (create_table d m True w)))"
proof -
  let ?q = "create_keyspace_query d (get_keyspace m) ''SimpleStrategy'' 3 True Map.empty"
  let ?w1 = "w\<lparr>issued := issued w @ [Read keyspaces_query []]\<rparr>"
  have q: "?q = ''\<newline>            CREATE KEYSPACE '' @ get_keyspace m @
                  ''\<newline>            WITH REPLICATION = '' @
                  replace (CHR 0x22) (CHR 0x27)
                    (json_dumps d [''class'' \<mapsto> JString ''SimpleStrategy'',
                                   ''replication_factor'' \<mapsto> JNumber 3]) @
                  ''\<newline>            ''"
    by (simp add: create_keyspace_query_def replication_map_def)
  obtain r w2 where rw: "run_execute d ?q ?w1 = (r, w2)" by (cases "run_execute d ?q ?w1")
  then have iss: "issued w2 = issued w @ [Read keyspaces_query [], DDL ?q]"
    using run_execute_issued [of d ?q ?w1] by simp
  have kp: "keyspace_pass d m True w = (case r of Some ex \<Rightarrow> (Inl ex, w2) | None \<Rightarrow> (Inr (), w2))"
    using assms(2,3) rw by (simp add: keyspace_pass_def create_keyspace_def run_read_def)
  have "prefix (issued w2) (issued (snd (create_table d m True w)))"
  proof (cases r)
    case (Some ex)
    with kp assms(1) show ?thesis by (simp add: create_table_def)
  next
    case None
    obtain r3 w3 where tp: "table_pass d m w2 = (r3, w3)" by (cases "table_pass d m w2")
    have p3: "prefix (issued w2) (issued w3)"
      using table_pass_mono [of w2 d m] tp by simp
    show ?thesis
    proof (cases r3)
      case (Inl ex)
      with None kp assms(1) tp p3 show ?thesis by (simp add: create_table_def)
    next
      case (Inr u)
      have "prefix (issued w3) (issued (snd (index_pass d m w3)))" by (rule index_pass_mono)
      with p3 have "prefix (issued w2) (issued (snd (index_pass d m w3)))"
        by (rule prefix_order.trans)
      with None kp assms(1) tp Inr show ?thesis by (simp add: create_table_def)
    qed
  qed
  then show ?thesis unfolding iss q .
qed

theorem create_table_default_keyspace_witness:
  "prefix
     [Read keyspaces_query [],
      DDL (''\<newline>            CREATE KEYSPACE ks'' @
           ''\<newline>            WITH REPLICATION = '' @
           ''{'' @ [CHR 0x27] @ ''class'' @ [CHR 0x27] @ '': '' @
             [CHR 0x27] @ ''SimpleStrategy'' @ [CHR 0x27] @ '', '' @
             [CHR 0x27] @ ''replication_factor'' @ [CHR 0x27] @ '': 3}'' @
           ''\<newline>            '')]
     (issued (snd (create_table demo users True empty_world)))"
proof -
  have a: "\<not> abstract users" by (simp add: users_def)
  have b: "con_execute demo (cluster empty_world) keyspaces_query [] = Inr []"
    by (simp add: demo_def scripted_def empty_world_def)
  have c: "get_keyspace users \<notin> set []" by simp
  have d: "json_dumps demo [''class'' \<mapsto> JString ''SimpleStrategy'',
                            ''replication_factor'' \<mapsto> JNumber 3] =
      ''{'' @ quoted ''class'' @ '': '' @ quoted ''SimpleStrategy'' @ '', '' @
      quoted ''replication_factor'' @ '': 3}''"
    by (simp add: demo_def scripted_def demo_dumps_def dumps_keys_def str_int_def)
  from create_table_default_keyspace [OF a b c] show ?thesis
    unfolding d by (simp add: users_def empty_world_def replace_def quoted_def)
qed

end
